theory Spec2Isabelle
  imports Main "HOL-Library.AList"
begin

section \<open>Voter registration routes of Vanadium\<close>

text \<open>
  The development follows \<^verbatim>\<open>src/electos/vanadium/app/routes/voter_registration.py\<close>.
  The four route functions are embedded as pure functions that take the storage
  resource and its state and return the response model, the HTTP response object
  and the state of the storage after the call.
\<close>

subsection \<open>Values and models\<close>

text \<open>
  \<^verbatim>\<open>VoterRecordsRequest\<close>: the request model. The routes read only
  \<^verbatim>\<open>item.transaction_id\<close> (an optional string); the other fields named by the
  docstrings are carried along unchanged.
\<close>

record VoterRecordsRequest =
  form :: string
  generated_date :: string
  request_type :: string
  transaction_id :: "string option"

text \<open>
  The Python values a storage method can hand back to a route. A route only tests
  such a value with \<^verbatim>\<open>if value:\<close> and, in the create route, passes it on as the
  \<^verbatim>\<open>TransactionId\<close> of the response.
\<close>

datatype pyval =
    PyNone
  | PyBool bool
  | PyInt int
  | PyStr string
  | PyModel VoterRecordsRequest

text \<open>
  Python truthiness: \<^verbatim>\<open>None\<close>, \<^verbatim>\<open>False\<close>, \<^verbatim>\<open>0\<close> and the empty string are falsy; a
  model instance defines neither \<^verbatim>\<open>__bool__\<close> nor \<^verbatim>\<open>__len__\<close> and is truthy.
\<close>

fun truthy :: "pyval \<Rightarrow> bool" where
  "truthy PyNone = False"
| "truthy (PyBool b) = b"
| "truthy (PyInt i) = (i \<noteq> 0)"
| "truthy (PyStr s) = (s \<noteq> [])"
| "truthy (PyModel m) = True"

text \<open>
  The enumerations \<^verbatim>\<open>SuccessAction\<close> and \<^verbatim>\<open>RequestError\<close> are imported from
  \<^verbatim>\<open>vanadium.models.nist.vri\<close>, a module that is not among the sources. The
  members the routes name are listed first; the further members are members of the
  enumerations of the NIST voter records interchange format that the routes never use.
\<close>

datatype SuccessAction =
    REGISTRATION_CREATED
  | REGISTRATION_UPDATED
  | REGISTRATION_CANCELLED
  | ADDRESS_UPDATED
  | NAME_UPDATED
  | STATUS_UPDATED
  | OTHER_ACTION

datatype RequestError =
    IDENTITY_LOOKUP_FAILED
  | INCOMPLETE
  | INELIGIBLE
  | INVALID_FORM
  | OTHER_ERROR

datatype Error = Error (Name: RequestError)

text \<open>
  The three response models, sub-classes of \<^verbatim>\<open>VoterRecordsResponse\<close>, with the
  fields the routes set by keyword. They are imported from the same module; a
  constructor call is taken to build the model from the values it is given.
\<close>

datatype VoterRecordsResponse =
    RequestSuccess (Action: "SuccessAction list") (TransactionId: pyval)
  | RequestRejection (AdditionalDetails: "string list") (Errors: "Error list")
      (TransactionId: pyval)
  | RequestAcknowledgement (TransactionId: pyval)

text \<open>
  The \<^verbatim>\<open>Response\<close> object a route sets a status code on. The injected object has
  no status code; the framework then answers with the default of the route, 200.
\<close>

record Response =
  status_code :: "nat option"

definition HTTP_200_OK :: nat where
  "HTTP_200_OK = 200"

definition HTTP_201_CREATED :: nat where
  "HTTP_201_CREATED = 201"

definition HTTP_400_BAD_REQUEST :: nat where
  "HTTP_400_BAD_REQUEST = 400"

definition HTTP_404_NOT_FOUND :: nat where
  "HTTP_404_NOT_FOUND = 404"

definition sent_status :: "Response \<Rightarrow> nat" where
  "sent_status http_response =
     (case status_code http_response of None \<Rightarrow> HTTP_200_OK | Some c \<Rightarrow> c)"

subsection \<open>The storage resource\<close>

text \<open>
  The storage is injected (\<^verbatim>\<open>Depends(storage_resource.get_storage)\<close>); the routes
  call its four methods. It is a parameter of the routes: four operations on a state
  \<open>'s\<close>, each returning a Python value and the state after the call. Here every
  call returns; a storage whose calls may raise is treated further below.
\<close>

record 's storage =
  storage_insert :: "string option \<Rightarrow> VoterRecordsRequest \<Rightarrow> 's \<Rightarrow> pyval \<times> 's"
  storage_lookup :: "string \<Rightarrow> 's \<Rightarrow> pyval \<times> 's"
  storage_update :: "string \<Rightarrow> VoterRecordsRequest \<Rightarrow> 's \<Rightarrow> pyval \<times> 's"
  storage_remove :: "string \<Rightarrow> 's \<Rightarrow> pyval \<times> 's"

subsection \<open>The routes\<close>

text \<open>
  Each route calls one method of the storage and branches on the truthiness of the
  answer. The path parameter \<^verbatim>\<open>transaction_id\<close> of the status, update and cancel
  routes is written \<open>transaction_id'\<close>, the plain name being the field of the request
  model. Adjacent string literals of the source are joined with \<open>@\<close>.
\<close>

definition voter_registration_request ::
  "VoterRecordsRequest \<Rightarrow> Response \<Rightarrow> 's storage \<Rightarrow> 's
     \<Rightarrow> VoterRecordsResponse \<times> Response \<times> 's" where
  "voter_registration_request item http_response storage s =
     (let (registration_id, s') = storage_insert storage (transaction_id item) item s in
      if truthy registration_id then
        (RequestSuccess [REGISTRATION_CREATED] registration_id,
         http_response\<lparr>status_code := Some HTTP_201_CREATED\<rparr>, s')
      else
        (RequestRejection
           [''Voter registration request already exists. '' @
            ''The transaction ID is already associated to a pending request.'']
           [Error IDENTITY_LOOKUP_FAILED]
           registration_id,
         http_response\<lparr>status_code := Some HTTP_400_BAD_REQUEST\<rparr>, s'))"

definition voter_registration_status ::
  "string \<Rightarrow> Response \<Rightarrow> 's storage \<Rightarrow> 's
     \<Rightarrow> VoterRecordsResponse \<times> Response \<times> 's" where
  "voter_registration_status transaction_id' http_response storage s =
     (let (value, s') = storage_lookup storage transaction_id' s in
      if truthy value then
        (RequestAcknowledgement (PyStr transaction_id'), http_response, s')
      else
        (RequestRejection
           [''Voter registration request not found. '' @
            ''The transaction ID isn't associated with any pending requests.'']
           [Error IDENTITY_LOOKUP_FAILED]
           (PyStr transaction_id'),
         http_response\<lparr>status_code := Some HTTP_404_NOT_FOUND\<rparr>, s'))"

definition voter_registration_update ::
  "string \<Rightarrow> VoterRecordsRequest \<Rightarrow> Response \<Rightarrow> 's storage \<Rightarrow> 's
     \<Rightarrow> VoterRecordsResponse \<times> Response \<times> 's" where
  "voter_registration_update transaction_id' item http_response storage s =
     (let (value, s') = storage_update storage transaction_id' item s in
      if truthy value then
        (RequestSuccess [REGISTRATION_UPDATED] (PyStr transaction_id'), http_response, s')
      else
        (RequestRejection
           [''Voter registration request not found. '' @
            ''The transaction ID isn't associated with any pending requests.'']
           [Error IDENTITY_LOOKUP_FAILED]
           (PyStr transaction_id'),
         http_response\<lparr>status_code := Some HTTP_404_NOT_FOUND\<rparr>, s'))"

definition voter_registration_cancel ::
  "string \<Rightarrow> Response \<Rightarrow> 's storage \<Rightarrow> 's
     \<Rightarrow> VoterRecordsResponse \<times> Response \<times> 's" where
  "voter_registration_cancel transaction_id' http_response storage s =
     (let (value, s') = storage_remove storage transaction_id' s in
      if truthy value then
        (RequestSuccess [REGISTRATION_CANCELLED] (PyStr transaction_id'), http_response, s')
      else
        (RequestRejection
           [''Voter registration request not found. '' @
            ''The transaction ID isn't associated with any pending requests.'']
           [Error IDENTITY_LOOKUP_FAILED]
           (PyStr transaction_id'),
         http_response\<lparr>status_code := Some HTTP_404_NOT_FOUND\<rparr>, s'))"

subsection \<open>Exceptions of the storage\<close>

text \<open>
  A method of the storage may also raise instead of returning. The routes contain no
  \<^verbatim>\<open>try\<close> and no \<^verbatim>\<open>raise\<close>: an exception of the storage call ends the route and
  leaves it, and nothing else in a route raises. A Python exception is kept as the
  name of its class.
\<close>

datatype py_exception = PyException string

text \<open>
  The storage with the exceptions of its methods made explicit: a call either raises
  (\<open>Inl\<close>) or returns a Python value and the state after the call (\<open>Inr\<close>).
\<close>

record 's raising_storage =
  raising_insert ::
    "string option \<Rightarrow> VoterRecordsRequest \<Rightarrow> 's \<Rightarrow> py_exception + pyval \<times> 's"
  raising_lookup :: "string \<Rightarrow> 's \<Rightarrow> py_exception + pyval \<times> 's"
  raising_update :: "string \<Rightarrow> VoterRecordsRequest \<Rightarrow> 's \<Rightarrow> py_exception + pyval \<times> 's"
  raising_remove :: "string \<Rightarrow> 's \<Rightarrow> py_exception + pyval \<times> 's"

text \<open>A storage whose calls always return, seen as a storage that may raise.\<close>

definition returning :: "'s storage \<Rightarrow> 's raising_storage" where
  "returning storage =
     \<lparr> raising_insert = (\<lambda>k r s. Inr (storage_insert storage k r s)),
       raising_lookup = (\<lambda>k s. Inr (storage_lookup storage k s)),
       raising_update = (\<lambda>k r s. Inr (storage_update storage k r s)),
       raising_remove = (\<lambda>k s. Inr (storage_remove storage k s)) \<rparr>"

text \<open>
  The four routes over a storage that may raise. The body of each route is the one
  above; the exception of the storage call, which the route does not catch, is its
  result.
\<close>

definition voter_registration_request_exn ::
  "VoterRecordsRequest \<Rightarrow> Response \<Rightarrow> 's raising_storage \<Rightarrow> 's
     \<Rightarrow> py_exception + VoterRecordsResponse \<times> Response \<times> 's" where
  "voter_registration_request_exn item http_response storage s =
     (case raising_insert storage (transaction_id item) item s of
        Inl e \<Rightarrow> Inl e
      | Inr (registration_id, s') \<Rightarrow>
          if truthy registration_id then
            Inr (RequestSuccess [REGISTRATION_CREATED] registration_id,
                 http_response\<lparr>status_code := Some HTTP_201_CREATED\<rparr>, s')
          else
            Inr (RequestRejection
                   [''Voter registration request already exists. '' @
                    ''The transaction ID is already associated to a pending request.'']
                   [Error IDENTITY_LOOKUP_FAILED]
                   registration_id,
                 http_response\<lparr>status_code := Some HTTP_400_BAD_REQUEST\<rparr>, s'))"

definition voter_registration_status_exn ::
  "string \<Rightarrow> Response \<Rightarrow> 's raising_storage \<Rightarrow> 's
     \<Rightarrow> py_exception + VoterRecordsResponse \<times> Response \<times> 's" where
  "voter_registration_status_exn transaction_id' http_response storage s =
     (case raising_lookup storage transaction_id' s of
        Inl e \<Rightarrow> Inl e
      | Inr (value, s') \<Rightarrow>
          if truthy value then
            Inr (RequestAcknowledgement (PyStr transaction_id'), http_response, s')
          else
            Inr (RequestRejection
                   [''Voter registration request not found. '' @
                    ''The transaction ID isn't associated with any pending requests.'']
                   [Error IDENTITY_LOOKUP_FAILED]
                   (PyStr transaction_id'),
                 http_response\<lparr>status_code := Some HTTP_404_NOT_FOUND\<rparr>, s'))"

definition voter_registration_update_exn ::
  "string \<Rightarrow> VoterRecordsRequest \<Rightarrow> Response \<Rightarrow> 's raising_storage \<Rightarrow> 's
     \<Rightarrow> py_exception + VoterRecordsResponse \<times> Response \<times> 's" where
  "voter_registration_update_exn transaction_id' item http_response storage s =
     (case raising_update storage transaction_id' item s of
        Inl e \<Rightarrow> Inl e
      | Inr (value, s') \<Rightarrow>
          if truthy value then
            Inr (RequestSuccess [REGISTRATION_UPDATED] (PyStr transaction_id'),
                 http_response, s')
          else
            Inr (RequestRejection
                   [''Voter registration request not found. '' @
                    ''The transaction ID isn't associated with any pending requests.'']
                   [Error IDENTITY_LOOKUP_FAILED]
                   (PyStr transaction_id'),
                 http_response\<lparr>status_code := Some HTTP_404_NOT_FOUND\<rparr>, s'))"

definition voter_registration_cancel_exn ::
  "string \<Rightarrow> Response \<Rightarrow> 's raising_storage \<Rightarrow> 's
     \<Rightarrow> py_exception + VoterRecordsResponse \<times> Response \<times> 's" where
  "voter_registration_cancel_exn transaction_id' http_response storage s =
     (case raising_remove storage transaction_id' s of
        Inl e \<Rightarrow> Inl e
      | Inr (value, s') \<Rightarrow>
          if truthy value then
            Inr (RequestSuccess [REGISTRATION_CANCELLED] (PyStr transaction_id'),
                 http_response, s')
          else
            Inr (RequestRejection
                   [''Voter registration request not found. '' @
                    ''The transaction ID isn't associated with any pending requests.'']
                   [Error IDENTITY_LOOKUP_FAILED]
                   (PyStr transaction_id'),
                 http_response\<lparr>status_code := Some HTTP_404_NOT_FOUND\<rparr>, s'))"


subsection \<open>Counting the storage calls\<close>

text \<open>
  To observe how often a route calls the storage, any storage is wrapped so that each
  of its four methods also increments a call counter kept beside the state.
\<close>

definition counting :: "'s storage \<Rightarrow> (nat \<times> 's) storage" where
  "counting storage =
     \<lparr> storage_insert = (\<lambda>k r (n, s). apsnd (Pair (Suc n)) (storage_insert storage k r s)),
       storage_lookup = (\<lambda>k (n, s). apsnd (Pair (Suc n)) (storage_lookup storage k s)),
       storage_update = (\<lambda>k r (n, s). apsnd (Pair (Suc n)) (storage_update storage k r s)),
       storage_remove = (\<lambda>k (n, s). apsnd (Pair (Suc n)) (storage_remove storage k s)) \<rparr>"

subsection \<open>The transaction store\<close>

text \<open>
  Modelled from the spec: the outcome type of the transaction store. The storage
  resource \<^verbatim>\<open>vanadium.app.resources.storage\<close> is not among the sources; its
  outcomes are the six the specification lists.
\<close>

datatype Outcome =
    Created string
  | Found string VoterRecordsRequest
  | Updated string
  | Removed string
  | Conflict string
  | Absent string

text \<open>
  Modelled from the spec: the identifier-to-record mapping of the missing storage
  resource, kept as an association list in insertion order so that uniqueness of the
  live identifiers is a property to be proved and not one of the type.
\<close>

type_synonym store = "(string \<times> VoterRecordsRequest) list"

text \<open>
  Modelled from the spec: an identifier is in use when a live record is stored under it.
\<close>

definition in_use :: "string \<Rightarrow> store \<Rightarrow> bool" where
  "in_use k m = (k \<in> set (map fst m))"

text \<open>
  Modelled from the spec: the generator of the missing storage resource (``generate a
  fresh identifier guaranteed not currently in use''). The identifier generated here is
  one character longer than every identifier in use.
\<close>

definition fresh_id :: "store \<Rightarrow> string" where
  "fresh_id m = replicate (Suc (foldr max (map (length \<circ> fst) m) 0)) CHR ''0''"

text \<open>
  Modelled from the spec: \<^verbatim>\<open>insert(requested_id, record)\<close> of the missing storage
  resource. Without a requested identifier a fresh one is generated; a requested
  identifier in use is a conflict; otherwise the record is stored.
\<close>

definition store_insert ::
  "string option \<Rightarrow> VoterRecordsRequest \<Rightarrow> store \<Rightarrow> Outcome \<times> store" where
  "store_insert requested_id rec m =
     (case requested_id of
        None \<Rightarrow> (let k = fresh_id m in (Created k, AList.update k rec m))
      | Some k \<Rightarrow>
          if in_use k m then (Conflict k, m)
          else (Created k, AList.update k rec m))"

text \<open>
  Modelled from the spec: \<^verbatim>\<open>lookup(id)\<close> of the missing storage resource; it does not
  change the mapping.
\<close>

definition store_lookup :: "string \<Rightarrow> store \<Rightarrow> Outcome \<times> store" where
  "store_lookup k m =
     (case map_of m k of Some rec \<Rightarrow> (Found k rec, m) | None \<Rightarrow> (Absent k, m))"

text \<open>
  Modelled from the spec: \<^verbatim>\<open>update(id, record)\<close> of the missing storage resource; it
  replaces the record of an identifier in use and does not create.
\<close>

definition store_update ::
  "string \<Rightarrow> VoterRecordsRequest \<Rightarrow> store \<Rightarrow> Outcome \<times> store" where
  "store_update k rec m =
     (if in_use k m then (Updated k, AList.update k rec m) else (Absent k, m))"

text \<open>
  Modelled from the spec: \<^verbatim>\<open>remove(id)\<close> of the missing storage resource; it deletes
  the record of an identifier in use.
\<close>

definition store_remove :: "string \<Rightarrow> store \<Rightarrow> Outcome \<times> store" where
  "store_remove k m =
     (if in_use k m then (Removed k, AList.delete k m) else (Absent k, m))"

text \<open>
  Modelled from the spec: the Python value by which the missing storage resource hands
  an outcome to a route. The routes use the answer of \<^verbatim>\<open>insert\<close> as the identifier
  of the response and document the identifier of a rejected create as null, and they
  test the answers of the other methods for truthiness only. An outcome is therefore
  handed over as what it carries: the identifier for \<open>Created\<close>, \<open>Updated\<close> and
  \<open>Removed\<close>, the record for \<open>Found\<close>, and \<^verbatim>\<open>None\<close> for \<open>Conflict\<close> and \<open>Absent\<close>.
\<close>

fun carried :: "Outcome \<Rightarrow> pyval" where
  "carried (Created k) = PyStr k"
| "carried (Found k rec) = PyModel rec"
| "carried (Updated k) = PyStr k"
| "carried (Removed k) = PyStr k"
| "carried (Conflict k) = PyNone"
| "carried (Absent k) = PyNone"

text \<open>
  Modelled from the spec: the missing storage resource as the routes receive it, the
  four store operations with their outcomes handed over as Python values.
\<close>

definition memory_storage :: "store storage" where
  "memory_storage =
     \<lparr> storage_insert = (\<lambda>k rec m. apfst carried (store_insert k rec m)),
       storage_lookup = (\<lambda>k m. apfst carried (store_lookup k m)),
       storage_update = (\<lambda>k rec m. apfst carried (store_update k rec m)),
       storage_remove = (\<lambda>k m. apfst carried (store_remove k m)) \<rparr>"

text \<open>
  A sequence of create requests served one after the other against one storage, each
  with a response object of its own; the result is the state of the storage at the end.
\<close>

fun creates :: "VoterRecordsRequest list \<Rightarrow> 's storage \<Rightarrow> 's \<Rightarrow> 's" where
  "creates [] storage s = s"
| "creates (item # items) storage s =
     creates items storage
       (snd (snd (voter_registration_request item \<lparr>status_code = None\<rparr> storage s)))"

subsection \<open>Example data\<close>

text \<open>
  A request without a transaction identifier, the same request asking for the
  identifier \<open>a1\<close> and for the empty string as identifier, and a store that holds one
  record under \<open>a1\<close>.
\<close>

definition example_item :: VoterRecordsRequest where
  "example_item =
     \<lparr>form = ''nvra'', generated_date = ''2022-11-08'', request_type = ''registration'',
      transaction_id = None\<rparr>"

definition example_conflict :: VoterRecordsRequest where
  "example_conflict = example_item\<lparr>transaction_id := Some ''a1''\<rparr>"

definition example_empty_id :: VoterRecordsRequest where
  "example_empty_id = example_item\<lparr>transaction_id := Some ''''\<rparr>"

definition example_store :: store where
  "example_store = [(''a1'', example_item)]"

section \<open>Properties of the routes\<close>

lemmas route_defs =
  voter_registration_request_def voter_registration_status_def
  voter_registration_update_def voter_registration_cancel_def

lemmas store_defs =
  memory_storage_def store_insert_def store_lookup_def store_update_def store_remove_def
  in_use_def fresh_id_def example_store_def example_item_def example_conflict_def
  example_empty_id_def

lemmas route_exn_defs =
  voter_registration_request_exn_def voter_registration_status_exn_def
  voter_registration_update_exn_def voter_registration_cancel_exn_def

subsection \<open>Success shapes\<close>

text \<open>
  C1. A route learns the result of its storage call from the value the call returns,
  and takes a truthy value as success. Whenever the call reports success in this way,
  the route returns the success shape of its operation: create returns
  \<open>RequestSuccess\<close> with the action \<open>REGISTRATION_CREATED\<close> and the identifier the
  storage returned; update and cancel return \<open>RequestSuccess\<close> with the actions
  \<open>REGISTRATION_UPDATED\<close> and \<open>REGISTRATION_CANCELLED\<close> and the requested identifier;
  status returns \<open>RequestAcknowledgement\<close> with the requested identifier.
\<close>

theorem success_shapes:
  "(truthy (fst (storage_insert st (transaction_id item) item s)) \<longrightarrow>
      fst (voter_registration_request item h st s) =
        RequestSuccess [REGISTRATION_CREATED]
          (fst (storage_insert st (transaction_id item) item s)))
   \<and> (truthy (fst (storage_update st k item s)) \<longrightarrow>
      fst (voter_registration_update k item h st s) =
        RequestSuccess [REGISTRATION_UPDATED] (PyStr k))
   \<and> (truthy (fst (storage_remove st k s)) \<longrightarrow>
      fst (voter_registration_cancel k h st s) =
        RequestSuccess [REGISTRATION_CANCELLED] (PyStr k))
   \<and> (truthy (fst (storage_lookup st k s)) \<longrightarrow>
      fst (voter_registration_status k h st s) = RequestAcknowledgement (PyStr k))"
  by (simp add: route_defs split: prod.splits)

theorem success_shapes_witness:
  "truthy (fst (storage_insert memory_storage (transaction_id example_item) example_item
      example_store))
   \<and> fst (voter_registration_request example_item \<lparr>status_code = None\<rparr> memory_storage
        example_store) = RequestSuccess [REGISTRATION_CREATED] (PyStr ''000'')
   \<and> truthy (fst (storage_update memory_storage ''a1'' example_item example_store))
   \<and> fst (voter_registration_update ''a1'' example_item \<lparr>status_code = None\<rparr> memory_storage
        example_store) = RequestSuccess [REGISTRATION_UPDATED] (PyStr ''a1'')
   \<and> truthy (fst (storage_remove memory_storage ''a1'' example_store))
   \<and> fst (voter_registration_cancel ''a1'' \<lparr>status_code = None\<rparr> memory_storage
        example_store) = RequestSuccess [REGISTRATION_CANCELLED] (PyStr ''a1'')
   \<and> truthy (fst (storage_lookup memory_storage ''a1'' example_store))
   \<and> fst (voter_registration_status ''a1'' \<lparr>status_code = None\<rparr> memory_storage
        example_store) = RequestAcknowledgement (PyStr ''a1'')"
  using success_shapes [where st = memory_storage and item = example_item
      and s = example_store and k = "''a1''" and h = "\<lparr>status_code = None\<rparr>"]
  by (simp add: store_defs Let_def)

subsection \<open>Rejections\<close>

text \<open>
  C2. Whenever the storage call of a route reports failure (a falsy value: the conflict
  of a create, the absence of a status, update or cancel), the route returns a
  \<open>RequestRejection\<close> whose list of errors is the single code
  \<open>IDENTITY_LOOKUP_FAILED\<close>; the four routes use this one code for both kinds of
  failure.
\<close>

theorem rejections_share_error_code:
  "(\<not> truthy (fst (storage_insert st (transaction_id item) item s)) \<longrightarrow>
      is_RequestRejection (fst (voter_registration_request item h st s))
      \<and> Errors (fst (voter_registration_request item h st s)) =
          [Error IDENTITY_LOOKUP_FAILED])
   \<and> (\<not> truthy (fst (storage_lookup st k s)) \<longrightarrow>
      is_RequestRejection (fst (voter_registration_status k h st s))
      \<and> Errors (fst (voter_registration_status k h st s)) =
          [Error IDENTITY_LOOKUP_FAILED])
   \<and> (\<not> truthy (fst (storage_update st k item s)) \<longrightarrow>
      is_RequestRejection (fst (voter_registration_update k item h st s))
      \<and> Errors (fst (voter_registration_update k item h st s)) =
          [Error IDENTITY_LOOKUP_FAILED])
   \<and> (\<not> truthy (fst (storage_remove st k s)) \<longrightarrow>
      is_RequestRejection (fst (voter_registration_cancel k h st s))
      \<and> Errors (fst (voter_registration_cancel k h st s)) =
          [Error IDENTITY_LOOKUP_FAILED])"
  by (simp add: route_defs split: prod.splits)

theorem rejections_share_error_code_witness:
  "\<not> truthy (fst (storage_insert memory_storage (transaction_id example_conflict)
        example_conflict example_store))
   \<and> is_RequestRejection
        (fst (voter_registration_request example_conflict \<lparr>status_code = None\<rparr>
           memory_storage example_store))
   \<and> Errors (fst (voter_registration_request example_conflict \<lparr>status_code = None\<rparr>
        memory_storage example_store)) = [Error IDENTITY_LOOKUP_FAILED]
   \<and> \<not> truthy (fst (storage_lookup memory_storage ''b2'' example_store))
   \<and> is_RequestRejection
        (fst (voter_registration_status ''b2'' \<lparr>status_code = None\<rparr> memory_storage
           example_store))
   \<and> Errors (fst (voter_registration_status ''b2'' \<lparr>status_code = None\<rparr> memory_storage
        example_store)) = [Error IDENTITY_LOOKUP_FAILED]
   \<and> \<not> truthy (fst (storage_update memory_storage ''b2'' example_conflict example_store))
   \<and> is_RequestRejection
        (fst (voter_registration_update ''b2'' example_conflict \<lparr>status_code = None\<rparr>
           memory_storage example_store))
   \<and> Errors (fst (voter_registration_update ''b2'' example_conflict \<lparr>status_code = None\<rparr>
        memory_storage example_store)) = [Error IDENTITY_LOOKUP_FAILED]
   \<and> \<not> truthy (fst (storage_remove memory_storage ''b2'' example_store))
   \<and> is_RequestRejection
        (fst (voter_registration_cancel ''b2'' \<lparr>status_code = None\<rparr> memory_storage
           example_store))
   \<and> Errors (fst (voter_registration_cancel ''b2'' \<lparr>status_code = None\<rparr> memory_storage
        example_store)) = [Error IDENTITY_LOOKUP_FAILED]"
  using rejections_share_error_code [where st = memory_storage and item = example_conflict
      and s = example_store and k = "''b2''" and h = "\<lparr>status_code = None\<rparr>"]
  by (simp add: store_defs Let_def)




subsection \<open>Exhaustive case split and exceptions\<close>

lemma routes_exn_returning:
  "voter_registration_request_exn item h (returning st) s =
      Inr (voter_registration_request item h st s)"
  "voter_registration_status_exn k h (returning st) s =
      Inr (voter_registration_status k h st s)"
  "voter_registration_update_exn k item h (returning st) s =
      Inr (voter_registration_update k item h st s)"
  "voter_registration_cancel_exn k h (returning st) s =
      Inr (voter_registration_cancel k h st s)"
  by (simp_all add: route_defs route_exn_defs returning_def case_prod_beta Let_def)




subsection \<open>Status codes\<close>

text \<open>
  C5. The status codes: a create whose insert succeeds sets 201 and one whose insert
  fails sets 400; a status, update or cancel that succeeds leaves the response object
  as it received it, so that 200 is sent for a response object without a status code;
  a status, update or cancel whose storage call reports absence sets 404.
\<close>

theorem status_codes:
  "(truthy (fst (storage_insert st (transaction_id item) item s)) \<longrightarrow>
      sent_status (fst (snd (voter_registration_request item h st s))) = 201)
   \<and> (\<not> truthy (fst (storage_insert st (transaction_id item') item' s)) \<longrightarrow>
      sent_status (fst (snd (voter_registration_request item' h st s))) = 400)
   \<and> (truthy (fst (storage_lookup st k s)) \<longrightarrow>
      fst (snd (voter_registration_status k h st s)) = h
      \<and> (status_code h = None \<longrightarrow>
           sent_status (fst (snd (voter_registration_status k h st s))) = 200))
   \<and> (truthy (fst (storage_update st k item s)) \<longrightarrow>
      fst (snd (voter_registration_update k item h st s)) = h
      \<and> (status_code h = None \<longrightarrow>
           sent_status (fst (snd (voter_registration_update k item h st s))) = 200))
   \<and> (truthy (fst (storage_remove st k s)) \<longrightarrow>
      fst (snd (voter_registration_cancel k h st s)) = h
      \<and> (status_code h = None \<longrightarrow>
           sent_status (fst (snd (voter_registration_cancel k h st s))) = 200))
   \<and> (\<not> truthy (fst (storage_lookup st k' s)) \<longrightarrow>
      sent_status (fst (snd (voter_registration_status k' h st s))) = 404)
   \<and> (\<not> truthy (fst (storage_update st k' item s)) \<longrightarrow>
      sent_status (fst (snd (voter_registration_update k' item h st s))) = 404)
   \<and> (\<not> truthy (fst (storage_remove st k' s)) \<longrightarrow>
      sent_status (fst (snd (voter_registration_cancel k' h st s))) = 404)"
  by (simp add: route_defs sent_status_def HTTP_200_OK_def HTTP_201_CREATED_def
      HTTP_400_BAD_REQUEST_def HTTP_404_NOT_FOUND_def split: prod.splits)

theorem status_codes_witness:
  "truthy (fst (storage_insert memory_storage (transaction_id example_item) example_item
      example_store))
   \<and> sent_status (fst (snd (voter_registration_request example_item
        \<lparr>status_code = None\<rparr> memory_storage example_store))) = 201
   \<and> \<not> truthy (fst (storage_insert memory_storage (transaction_id example_conflict)
        example_conflict example_store))
   \<and> sent_status (fst (snd (voter_registration_request example_conflict
        \<lparr>status_code = None\<rparr> memory_storage example_store))) = 400
   \<and> truthy (fst (storage_lookup memory_storage ''a1'' example_store))
   \<and> truthy (fst (storage_update memory_storage ''a1'' example_item example_store))
   \<and> truthy (fst (storage_remove memory_storage ''a1'' example_store))
   \<and> status_code \<lparr>status_code = None\<rparr> = None
   \<and> sent_status (fst (snd (voter_registration_status ''a1''
        \<lparr>status_code = None\<rparr> memory_storage example_store))) = 200
   \<and> sent_status (fst (snd (voter_registration_update ''a1'' example_item
        \<lparr>status_code = None\<rparr> memory_storage example_store))) = 200
   \<and> sent_status (fst (snd (voter_registration_cancel ''a1''
        \<lparr>status_code = None\<rparr> memory_storage example_store))) = 200
   \<and> \<not> truthy (fst (storage_lookup memory_storage ''b2'' example_store))
   \<and> \<not> truthy (fst (storage_update memory_storage ''b2'' example_item example_store))
   \<and> \<not> truthy (fst (storage_remove memory_storage ''b2'' example_store))
   \<and> sent_status (fst (snd (voter_registration_status ''b2''
        \<lparr>status_code = None\<rparr> memory_storage example_store))) = 404
   \<and> sent_status (fst (snd (voter_registration_update ''b2'' example_item
        \<lparr>status_code = None\<rparr> memory_storage example_store))) = 404
   \<and> sent_status (fst (snd (voter_registration_cancel ''b2''
        \<lparr>status_code = None\<rparr> memory_storage example_store))) = 404"
  using status_codes [where st = memory_storage and item = example_item
      and item' = example_conflict and s = example_store and k = "''a1''" and k' = "''b2''"
      and h = "\<lparr>status_code = None\<rparr>"]
  by (simp add: store_defs Let_def sent_status_def HTTP_200_OK_def)

subsection \<open>One storage call for each request\<close>

text \<open>
  C8. Every route calls the storage exactly once: run against a storage that counts
  its calls, each route raises the counter by one, and the state it leaves is the
  state left by that single \<^verbatim>\<open>insert\<close>, \<^verbatim>\<open>lookup\<close>, \<^verbatim>\<open>update\<close> or \<^verbatim>\<open>remove\<close>.
  Hence a request changes the mapping at most once, and a status request, whose one
  call is a lookup that leaves the mapping as it is, does not change it at all. A route
  has no effect besides its storage call and the status code it sets on its own
  response object.
\<close>

theorem one_storage_call:
  "snd (snd (voter_registration_request item h (counting st) (n, s))) =
      (Suc n, snd (storage_insert st (transaction_id item) item s))
   \<and> snd (snd (voter_registration_status k h (counting st) (n, s))) =
      (Suc n, snd (storage_lookup st k s))
   \<and> snd (snd (voter_registration_update k item h (counting st) (n, s))) =
      (Suc n, snd (storage_update st k item s))
   \<and> snd (snd (voter_registration_cancel k h (counting st) (n, s))) =
      (Suc n, snd (storage_remove st k s))
   \<and> (snd (storage_lookup st k s) = s \<longrightarrow>
        snd (snd (voter_registration_status k h st s)) = s)"
  by (simp add: route_defs counting_def case_prod_beta Let_def)

theorem one_storage_call_witness:
  "snd (snd (voter_registration_request example_item \<lparr>status_code = None\<rparr>
      (counting memory_storage) (0, example_store))) =
      (Suc 0, [(''a1'', example_item), (''000'', example_item)])
   \<and> snd (snd (voter_registration_status ''a1'' \<lparr>status_code = None\<rparr>
        (counting memory_storage) (0, example_store))) = (Suc 0, example_store)
   \<and> snd (snd (voter_registration_update ''a1'' example_conflict \<lparr>status_code = None\<rparr>
        (counting memory_storage) (0, example_store))) = (Suc 0, [(''a1'', example_conflict)])
   \<and> snd (snd (voter_registration_cancel ''a1'' \<lparr>status_code = None\<rparr>
        (counting memory_storage) (0, example_store))) = (Suc 0, [])
   \<and> snd (storage_lookup memory_storage ''a1'' example_store) = example_store
   \<and> snd (snd (voter_registration_status ''a1'' \<lparr>status_code = None\<rparr> memory_storage
        example_store)) = example_store"
  using one_storage_call [where st = memory_storage and item = example_item
      and s = example_store and k = "''a1''" and h = "\<lparr>status_code = None\<rparr>" and n = 0]
    one_storage_call [where st = memory_storage and item = example_conflict
      and s = example_store and k = "''a1''" and h = "\<lparr>status_code = None\<rparr>" and n = 0]
  by (simp add: store_defs Let_def)

subsection \<open>Detail texts\<close>

text \<open>
  C9. The detail of a rejection is one text. For a create whose insert fails it is
  ``Voter registration request already exists. The transaction ID is already associated
  to a pending request.'', which contains the phrase ``request already exists''; for a
  status, update or cancel whose storage call reports absence it is ``Voter registration
  request not found. The transaction ID isn't associated with any pending requests.'',
  which contains the phrase ``not found''.
\<close>

theorem rejection_details:
  "(\<not> truthy (fst (storage_insert st (transaction_id item) item s)) \<longrightarrow>
      AdditionalDetails (fst (voter_registration_request item h st s)) =
        [''Voter registration request already exists. The transaction ID is already associated to a pending request.'']
      \<and> AdditionalDetails (fst (voter_registration_request item h st s)) =
        [''Voter registration '' @ ''request already exists'' @
         ''. The transaction ID is already associated to a pending request.''])
   \<and> (\<not> truthy (fst (storage_lookup st k s)) \<longrightarrow>
      AdditionalDetails (fst (voter_registration_status k h st s)) =
        [''Voter registration request not found. The transaction ID isn't associated with any pending requests.'']
      \<and> AdditionalDetails (fst (voter_registration_status k h st s)) =
        [''Voter registration request '' @ ''not found'' @
         ''. The transaction ID isn't associated with any pending requests.''])
   \<and> (\<not> truthy (fst (storage_update st k item s)) \<longrightarrow>
      AdditionalDetails (fst (voter_registration_update k item h st s)) =
        [''Voter registration request not found. The transaction ID isn't associated with any pending requests.''])
   \<and> (\<not> truthy (fst (storage_remove st k s)) \<longrightarrow>
      AdditionalDetails (fst (voter_registration_cancel k h st s)) =
        [''Voter registration request not found. The transaction ID isn't associated with any pending requests.''])"
  by (simp add: route_defs split: prod.splits)

theorem rejection_details_witness:
  "\<not> truthy (fst (storage_insert memory_storage (transaction_id example_conflict)
      example_conflict example_store))
   \<and> AdditionalDetails (fst (voter_registration_request example_conflict
        \<lparr>status_code = None\<rparr> memory_storage example_store)) =
        [''Voter registration request already exists. The transaction ID is already associated to a pending request.'']
   \<and> \<not> truthy (fst (storage_lookup memory_storage ''b2'' example_store))
   \<and> AdditionalDetails (fst (voter_registration_status ''b2'' \<lparr>status_code = None\<rparr>
        memory_storage example_store)) =
        [''Voter registration request not found. The transaction ID isn't associated with any pending requests.'']
   \<and> \<not> truthy (fst (storage_update memory_storage ''b2'' example_conflict example_store))
   \<and> AdditionalDetails (fst (voter_registration_update ''b2'' example_conflict
        \<lparr>status_code = None\<rparr> memory_storage example_store)) =
        [''Voter registration request not found. The transaction ID isn't associated with any pending requests.'']
   \<and> \<not> truthy (fst (storage_remove memory_storage ''b2'' example_store))
   \<and> AdditionalDetails (fst (voter_registration_cancel ''b2'' \<lparr>status_code = None\<rparr>
        memory_storage example_store)) =
        [''Voter registration request not found. The transaction ID isn't associated with any pending requests.'']"
  using rejection_details [where st = memory_storage and item = example_conflict
      and s = example_store and k = "''b2''" and h = "\<lparr>status_code = None\<rparr>"]
  by (simp add: store_defs Let_def)

text \<open>
  The detail texts are not the short phrases themselves: for the conflicting create
  and the status of an unknown identifier below, neither the list of details nor any of
  its elements is the phrase.
\<close>

theorem rejection_details_counterexample:
  "fst (store_insert (transaction_id example_conflict) example_conflict example_store) =
      Conflict ''a1''
   \<and> AdditionalDetails (fst (voter_registration_request example_conflict
        \<lparr>status_code = None\<rparr> memory_storage example_store)) \<noteq> [''request already exists'']
   \<and> ''request already exists'' \<notin> set (AdditionalDetails (fst (voter_registration_request
        example_conflict \<lparr>status_code = None\<rparr> memory_storage example_store)))
   \<and> fst (store_lookup ''b2'' example_store) = Absent ''b2''
   \<and> AdditionalDetails (fst (voter_registration_status ''b2'' \<lparr>status_code = None\<rparr>
        memory_storage example_store)) \<noteq> [''not found'']
   \<and> ''not found'' \<notin> set (AdditionalDetails (fst (voter_registration_status ''b2''
        \<lparr>status_code = None\<rparr> memory_storage example_store)))"
  by (simp add: route_defs store_defs)

subsection \<open>Classification by truthiness\<close>

text \<open>
  C10. The routes classify the answer of the storage by its truthiness. Whenever
  \<^verbatim>\<open>insert\<close> returns a falsy value (\<^verbatim>\<open>None\<close>, and also the empty string), the create
  route returns the rejection, carrying that value, with status 400, whatever the
  storage did to its state; whenever \<^verbatim>\<open>lookup\<close> returns a falsy value, the status
  route returns the not-found rejection with status 404. So a storage operation that
  succeeded with a falsy identifier or record is reported as a failure.
\<close>

theorem falsy_answers_rejected:
  "(\<not> truthy (fst (storage_insert st (transaction_id item) item s)) \<longrightarrow>
      voter_registration_request item h st s =
        (RequestRejection
           [''Voter registration request already exists. The transaction ID is already associated to a pending request.'']
           [Error IDENTITY_LOOKUP_FAILED]
           (fst (storage_insert st (transaction_id item) item s)),
         h\<lparr>status_code := Some 400\<rparr>,
         snd (storage_insert st (transaction_id item) item s)))
   \<and> (\<not> truthy (fst (storage_lookup st k s)) \<longrightarrow>
      voter_registration_status k h st s =
        (RequestRejection
           [''Voter registration request not found. The transaction ID isn't associated with any pending requests.'']
           [Error IDENTITY_LOOKUP_FAILED]
           (PyStr k),
         h\<lparr>status_code := Some 404\<rparr>,
         snd (storage_lookup st k s)))
   \<and> \<not> truthy PyNone \<and> \<not> truthy (PyStr '''')"
  by (simp add: route_defs case_prod_beta Let_def HTTP_400_BAD_REQUEST_def
      HTTP_404_NOT_FOUND_def)

theorem falsy_answers_rejected_witness:
  "store_insert (transaction_id example_empty_id) example_empty_id [] =
      (Created '''', [('''', example_empty_id)])
   \<and> \<not> truthy (fst (storage_insert memory_storage (transaction_id example_empty_id)
        example_empty_id []))
   \<and> voter_registration_request example_empty_id \<lparr>status_code = None\<rparr> memory_storage [] =
        (RequestRejection
           [''Voter registration request already exists. The transaction ID is already associated to a pending request.'']
           [Error IDENTITY_LOOKUP_FAILED]
           (PyStr ''''),
         \<lparr>status_code = Some 400\<rparr>,
         [('''', example_empty_id)])
   \<and> \<not> truthy (fst (storage_lookup memory_storage ''b2'' []))
   \<and> voter_registration_status ''b2'' \<lparr>status_code = None\<rparr> memory_storage [] =
        (RequestRejection
           [''Voter registration request not found. The transaction ID isn't associated with any pending requests.'']
           [Error IDENTITY_LOOKUP_FAILED]
           (PyStr ''b2''),
         \<lparr>status_code = Some 404\<rparr>,
         [])"
  using falsy_answers_rejected [where st = memory_storage and item = example_empty_id
      and s = "[]" and k = "''b2''" and h = "\<lparr>status_code = None\<rparr>"]
  by (simp add: store_defs Let_def)

section \<open>Properties of the routes over the transaction store\<close>

subsection \<open>Facts about the store\<close>

lemma length_le_longest:
  "k \<in> set (map fst m) \<Longrightarrow> length k \<le> foldr max (map (length \<circ> fst) m) 0"
  by (induction m) (auto simp add: max.coboundedI2 rev_image_eqI)

lemma fresh_id_not_in_use: "\<not> in_use (fresh_id m) m"
proof
  assume "in_use (fresh_id m) m"
  then have "length (fresh_id m) \<le> foldr max (map (length \<circ> fst) m) 0"
    unfolding in_use_def by (rule length_le_longest)
  then show False by (simp add: fresh_id_def)
qed

lemma in_use_map_of: "in_use k m \<longleftrightarrow> map_of m k \<noteq> None"
  by (simp add: in_use_def map_of_eq_None_iff)

lemma not_in_use_delete: "\<not> in_use k (AList.delete k m)"
  by (simp add: in_use_map_of delete_conv')

lemma store_insert_distinct:
  "distinct (map fst m) \<Longrightarrow> distinct (map fst (snd (store_insert q rec m)))"
  by (simp add: store_insert_def Let_def distinct_update split: option.splits)

lemma store_insert_keeps:
  "map_of m k = Some r \<Longrightarrow> map_of (snd (store_insert q rec m)) k = Some r"
  using fresh_id_not_in_use [of m]
  by (auto simp add: store_insert_def Let_def update_conv' in_use_map_of split: option.splits)

lemma request_state:
  "snd (snd (voter_registration_request item h memory_storage m)) =
     snd (store_insert (transaction_id item) item m)"
  by (simp add: voter_registration_request_def memory_storage_def case_prod_beta Let_def)

lemma creates_distinct:
  "distinct (map fst m) \<Longrightarrow> distinct (map fst (creates items memory_storage m))"
proof (induction items arbitrary: m)
  case Nil
  then show ?case by simp
next
  case (Cons item items)
  have "distinct (map fst (snd (store_insert (transaction_id item) item m)))"
    using Cons.prems by (rule store_insert_distinct)
  then show ?case
    by (simp add: request_state Cons.IH)
qed

lemma creates_keep:
  "map_of m k = Some r \<Longrightarrow> map_of (creates items memory_storage m) k = Some r"
proof (induction items arbitrary: m)
  case Nil
  then show ?case by simp
next
  case (Cons item items)
  from Cons.prems
  have "map_of (snd (store_insert (transaction_id item) item m)) k = Some r"
    by (rule store_insert_keeps)
  then show ?case
    by (simp add: request_state Cons.IH)
qed

lemma request_conflict:
  assumes "transaction_id item = Some k" and "in_use k m"
  shows "voter_registration_request item h memory_storage m =
        (RequestRejection
           [''Voter registration request already exists. The transaction ID is already associated to a pending request.'']
           [Error IDENTITY_LOOKUP_FAILED]
           PyNone,
         h\<lparr>status_code := Some 400\<rparr>, m)"
  using assms
  by (simp add: voter_registration_request_def memory_storage_def store_insert_def
      HTTP_400_BAD_REQUEST_def)

lemma cancel_success:
  assumes "is_RequestSuccess (fst (voter_registration_cancel k h memory_storage m))"
  shows "in_use k m \<and> k \<noteq> []
     \<and> snd (snd (voter_registration_cancel k h memory_storage m)) = AList.delete k m"
  using assms
  by (simp add: voter_registration_cancel_def memory_storage_def store_remove_def
      split: if_splits)

subsection \<open>Uniqueness of the live identifiers\<close>

text \<open>
  C6. Against the transaction store, whose live identifiers are pairwise different at
  the start, every sequence of creates leaves the live identifiers pairwise different
  and every record that was stored before still stored unchanged; and after it a create
  that supplies an identifier in use is a \<open>Conflict\<close>, is answered with the rejection
  (\<open>IDENTITY_LOOKUP_FAILED\<close>, no identifier, status 400) and leaves the store, hence
  the existing record, as it was.
\<close>

theorem identifiers_stay_unique:
  assumes "distinct (map fst m)"
  shows "distinct (map fst (creates items memory_storage m))
     \<and> (map_of m k' = Some r \<longrightarrow> map_of (creates items memory_storage m) k' = Some r)
     \<and> (transaction_id item = Some k \<and> in_use k (creates items memory_storage m) \<longrightarrow>
          fst (store_insert (transaction_id item) item (creates items memory_storage m)) =
            Conflict k
          \<and> voter_registration_request item h memory_storage
              (creates items memory_storage m) =
            (RequestRejection
               [''Voter registration request already exists. The transaction ID is already associated to a pending request.'']
               [Error IDENTITY_LOOKUP_FAILED]
               PyNone,
             h\<lparr>status_code := Some 400\<rparr>, creates items memory_storage m))"
  using assms
  by (auto simp add: creates_distinct creates_keep request_conflict store_insert_def)

theorem identifiers_stay_unique_witness:
  "distinct (map fst example_store)
   \<and> creates [example_item, example_conflict] memory_storage example_store =
        [(''a1'', example_item), (''000'', example_item)]
   \<and> distinct (map fst (creates [example_item, example_conflict] memory_storage example_store))
   \<and> map_of example_store ''a1'' = Some example_item
   \<and> map_of (creates [example_item, example_conflict] memory_storage example_store) ''a1'' =
        Some example_item
   \<and> transaction_id example_conflict = Some ''a1''
   \<and> in_use ''a1'' (creates [example_item, example_conflict] memory_storage example_store)
   \<and> fst (store_insert (transaction_id example_conflict) example_conflict
        (creates [example_item, example_conflict] memory_storage example_store)) =
        Conflict ''a1''
   \<and> voter_registration_request example_conflict \<lparr>status_code = None\<rparr> memory_storage
        (creates [example_item, example_conflict] memory_storage example_store) =
        (RequestRejection
           [''Voter registration request already exists. The transaction ID is already associated to a pending request.'']
           [Error IDENTITY_LOOKUP_FAILED]
           PyNone,
         \<lparr>status_code = Some 400\<rparr>,
         [(''a1'', example_item), (''000'', example_item)])"
proof -
  have d: "distinct (map fst example_store)"
    by (simp add: example_store_def)
  have c: "creates [example_item, example_conflict] memory_storage example_store =
      [(''a1'', example_item), (''000'', example_item)]"
    by (simp add: voter_registration_request_def store_defs Let_def)
  have l: "map_of example_store ''a1'' = Some example_item"
    by (simp add: example_store_def)
  have t: "transaction_id example_conflict = Some ''a1''"
    by (simp add: example_conflict_def)
  have u: "in_use ''a1'' (creates [example_item, example_conflict] memory_storage example_store)"
    unfolding c by (simp add: in_use_def)
  from identifiers_stay_unique [OF d, where items = "[example_item, example_conflict]"
      and k' = "''a1''" and r = example_item and item = example_conflict and k = "''a1''"
      and h = "\<lparr>status_code = None\<rparr>"] d c l t u
  show ?thesis by simp
qed

subsection \<open>Cancel frees the identifier\<close>

text \<open>
  C7. Against the transaction store, after a cancel of an identifier that succeeds,
  a status request for the identifier finds it \<open>Absent\<close> and is answered with the
  not-found rejection (status 404, the identifier echoed) without changing the store,
  and a following create that supplies the same identifier is \<open>Created\<close>: it is
  answered with the success shape (\<open>REGISTRATION_CREATED\<close>, the identifier, status 201)
  and the record is stored under the identifier.
\<close>

theorem cancel_frees_identifier:
  assumes "is_RequestSuccess (fst (voter_registration_cancel k h memory_storage m))"
    and "m' = snd (snd (voter_registration_cancel k h memory_storage m))"
    and "transaction_id item = Some k"
  shows "fst (store_lookup k m') = Absent k
     \<and> voter_registration_status k h1 memory_storage m' =
         (RequestRejection
            [''Voter registration request not found. The transaction ID isn't associated with any pending requests.'']
            [Error IDENTITY_LOOKUP_FAILED]
            (PyStr k),
          h1\<lparr>status_code := Some 404\<rparr>, m')
     \<and> fst (store_insert (transaction_id item) item m') = Created k
     \<and> voter_registration_request item h2 memory_storage m' =
         (RequestSuccess [REGISTRATION_CREATED] (PyStr k),
          h2\<lparr>status_code := Some 201\<rparr>, AList.update k item m')
     \<and> map_of (AList.update k item m') k = Some item"
proof -
  from cancel_success [OF assms(1)] assms(2)
  have k: "k \<noteq> []" and m': "m' = AList.delete k m"
    by simp_all
  have free: "\<not> in_use k m'"
    unfolding m' by (rule not_in_use_delete)
  then have none: "map_of m' k = None"
    by (simp add: in_use_map_of)
  have "fst (store_lookup k m') = Absent k"
    by (simp add: store_lookup_def none)
  moreover have "voter_registration_status k h1 memory_storage m' =
         (RequestRejection
            [''Voter registration request not found. The transaction ID isn't associated with any pending requests.'']
            [Error IDENTITY_LOOKUP_FAILED]
            (PyStr k),
          h1\<lparr>status_code := Some 404\<rparr>, m')"
    by (simp add: voter_registration_status_def memory_storage_def store_lookup_def none
        HTTP_404_NOT_FOUND_def)
  moreover have "fst (store_insert (transaction_id item) item m') = Created k"
    using free by (simp add: store_insert_def assms(3))
  moreover have "voter_registration_request item h2 memory_storage m' =
         (RequestSuccess [REGISTRATION_CREATED] (PyStr k),
          h2\<lparr>status_code := Some 201\<rparr>, AList.update k item m')"
    using free k
    by (simp add: voter_registration_request_def memory_storage_def store_insert_def assms(3)
        HTTP_201_CREATED_def)
  moreover have "map_of (AList.update k item m') k = Some item"
    by (simp add: update_conv')
  ultimately show ?thesis by simp
qed

theorem cancel_frees_identifier_witness:
  "is_RequestSuccess (fst (voter_registration_cancel ''a1'' \<lparr>status_code = None\<rparr>
      memory_storage example_store))
   \<and> snd (snd (voter_registration_cancel ''a1'' \<lparr>status_code = None\<rparr> memory_storage
        example_store)) = []
   \<and> transaction_id example_conflict = Some ''a1''
   \<and> voter_registration_status ''a1'' \<lparr>status_code = None\<rparr> memory_storage [] =
         (RequestRejection
            [''Voter registration request not found. The transaction ID isn't associated with any pending requests.'']
            [Error IDENTITY_LOOKUP_FAILED]
            (PyStr ''a1''),
          \<lparr>status_code = Some 404\<rparr>, [])
   \<and> voter_registration_request example_conflict \<lparr>status_code = None\<rparr> memory_storage [] =
         (RequestSuccess [REGISTRATION_CREATED] (PyStr ''a1''),
          \<lparr>status_code = Some 201\<rparr>, [(''a1'', example_conflict)])"
proof -
  have c: "is_RequestSuccess (fst (voter_registration_cancel ''a1'' \<lparr>status_code = None\<rparr>
      memory_storage example_store))"
    by (simp add: voter_registration_cancel_def store_defs)
  have s: "[] = snd (snd (voter_registration_cancel ''a1'' \<lparr>status_code = None\<rparr>
      memory_storage example_store))"
    by (simp add: voter_registration_cancel_def store_defs)
  have t: "transaction_id example_conflict = Some ''a1''"
    by (simp add: example_conflict_def)
  from cancel_frees_identifier [OF c s t, of "\<lparr>status_code = None\<rparr>" "\<lparr>status_code = None\<rparr>"]
    c s t
  show ?thesis by simp
qed

end
